theory Spec2Isabelle
  imports Complex_Main
begin

section \<open>Floating-point values\<close>

text \<open>
  The notebook computes with NumPy doubles. A finite double is taken as the real number it
  stands for, and the three special values that NumPy's arithmetic produces instead of
  raising (\<open>inf\<close>, \<open>-inf\<close>, \<open>nan\<close>) are kept, since \<open>np.log\<close>, \<open>np.mean\<close> of an
  empty array and comparisons with \<open>nan\<close> return them silently. The basic operations
  below are exact on finite values. Two effects of double precision are modelled where
  they decide what the code returns: the range of doubles in the likelihoods of the
  backtest (\<open>dbl\<close>), and rounding to nearest in the mean of the tail
  (\<open>np_mean_double\<close>).
\<close>

datatype fl = Fin real | PInf | NInf | NaN

fun fl_neg :: "fl \<Rightarrow> fl" where
  "fl_neg (Fin a) = Fin (- a)"
| "fl_neg PInf = NInf"
| "fl_neg NInf = PInf"
| "fl_neg NaN = NaN"

fun fl_add :: "fl \<Rightarrow> fl \<Rightarrow> fl" where
  "fl_add NaN _ = NaN"
| "fl_add _ NaN = NaN"
| "fl_add (Fin a) (Fin b) = Fin (a + b)"
| "fl_add PInf NInf = NaN"
| "fl_add NInf PInf = NaN"
| "fl_add PInf _ = PInf"
| "fl_add _ PInf = PInf"
| "fl_add NInf _ = NInf"
| "fl_add _ NInf = NInf"

definition fl_sub :: "fl \<Rightarrow> fl \<Rightarrow> fl" where
  "fl_sub x y = fl_add x (fl_neg y)"

fun fl_mul :: "fl \<Rightarrow> fl \<Rightarrow> fl" where
  "fl_mul NaN _ = NaN"
| "fl_mul _ NaN = NaN"
| "fl_mul (Fin a) (Fin b) = Fin (a * b)"
| "fl_mul (Fin a) PInf = (if a = 0 then NaN else if 0 < a then PInf else NInf)"
| "fl_mul (Fin a) NInf = (if a = 0 then NaN else if 0 < a then NInf else PInf)"
| "fl_mul PInf (Fin b) = (if b = 0 then NaN else if 0 < b then PInf else NInf)"
| "fl_mul NInf (Fin b) = (if b = 0 then NaN else if 0 < b then NInf else PInf)"
| "fl_mul PInf PInf = PInf"
| "fl_mul PInf NInf = NInf"
| "fl_mul NInf PInf = NInf"
| "fl_mul NInf NInf = PInf"

definition fl_pow :: "fl \<Rightarrow> nat \<Rightarrow> fl" where
  \<comment> \<open>\<open>x ** k\<close> for an integer \<open>k \<ge> 0\<close>; \<open>x ** 0\<close> is \<open>1.0\<close> for every \<open>x\<close>, \<open>0.0\<close> and \<open>nan\<close> included.\<close>
  "fl_pow x k =
     (if k = 0 then Fin 1
      else case x of
             Fin a \<Rightarrow> Fin (a ^ k)
           | PInf \<Rightarrow> PInf
           | NInf \<Rightarrow> (if even k then PInf else NInf)
           | NaN \<Rightarrow> NaN)"

fun np_log :: "fl \<Rightarrow> fl" where
  "np_log (Fin a) = (if 0 < a then Fin (ln a) else if a = 0 then NInf else NaN)"
| "np_log PInf = PInf"
| "np_log NInf = NaN"
| "np_log NaN = NaN"

fun np_exp :: "fl \<Rightarrow> fl" where
  "np_exp (Fin a) = Fin (exp a)"
| "np_exp PInf = PInf"
| "np_exp NInf = Fin 0"
| "np_exp NaN = NaN"

fun fl_less :: "fl \<Rightarrow> fl \<Rightarrow> bool" where
  "fl_less NaN _ = False"
| "fl_less _ NaN = False"
| "fl_less (Fin a) (Fin b) = (a < b)"
| "fl_less NInf NInf = False"
| "fl_less NInf _ = True"
| "fl_less _ NInf = False"
| "fl_less PInf _ = False"
| "fl_less _ PInf = True"

fun fl_le :: "fl \<Rightarrow> fl \<Rightarrow> bool" where
  "fl_le NaN _ = False"
| "fl_le _ NaN = False"
| "fl_le (Fin a) (Fin b) = (a \<le> b)"
| "fl_le NInf _ = True"
| "fl_le _ PInf = True"
| "fl_le _ NInf = False"
| "fl_le PInf _ = False"

section \<open>NumPy array routines\<close>

text \<open>
  A return series is a list of finite reals (the caller has removed missing values).
  \<open>np.mean\<close> and \<open>np.std\<close> (population convention, \<open>ddof = 0\<close>) return \<open>nan\<close> on an
  empty array.
\<close>

definition np_mean :: "real list \<Rightarrow> fl" where
  "np_mean xs = (if xs = [] then NaN else Fin (sum_list xs / real (length xs)))"

definition np_std :: "real list \<Rightarrow> fl" where
  "np_std xs =
     (if xs = [] then NaN
      else let m = sum_list xs / real (length xs)
           in Fin (sqrt (sum_list (map (\<lambda>x. \<bar>x - m\<bar> ^ 2) xs) / real (length xs))))"

text \<open>
  The exceptions of the notebook and of the routines it calls: \<open>InvalidMethod\<close> is the
  \<open>ValueError\<close> that \<open>calculate_var\<close> raises itself, \<open>PercentileOutOfRange\<close> is the
  \<open>ValueError\<close> of \<open>np.percentile\<close> for a percentile outside \<open>[0, 100]\<close>, \<open>EmptyInput\<close>
  is the exception \<open>np.percentile\<close> raises on an empty array (NumPy 1.22 and later), and
  \<open>IndexOutOfBounds\<close> is the \<open>IndexError\<close> of reading an array past its end, and
  \<open>FitError\<close> is an exception raised inside \<open>scipy.stats.t.fit\<close>.
\<close>

datatype error = InvalidMethod | PercentileOutOfRange | EmptyInput | IndexOutOfBounds | FitError

text \<open>
  \<open>np.percentile(a, q)\<close> with the default method \<open>linear\<close>: \<open>q\<close> outside \<open>[0, 100]\<close> is
  rejected first (\<open>ValueError\<close>); an empty array fails; otherwise the array is sorted, the
  virtual index \<open>(n - 1) * q / 100\<close> is split into its floor and the fraction \<open>gamma\<close>, the
  following index is clipped to the last one, and the two order statistics are
  interpolated by \<open>lerp\<close>, which switches formula at \<open>gamma = 1/2\<close>.
\<close>

definition lerp :: "real \<Rightarrow> real \<Rightarrow> real \<Rightarrow> real" where
  "lerp a b t = (if 1 / 2 \<le> t then b - (b - a) * (1 - t) else a + (b - a) * t)"

definition np_percentile :: "real list \<Rightarrow> real \<Rightarrow> error + fl" where
  "np_percentile a q =
     (if q < 0 \<or> 100 < q then Inl PercentileOutOfRange
      else if a = [] then Inl EmptyInput
      else let n = length a;
               xs = sort a;
               virtual_index = (real n - 1) * (q / 100);
               previous_index = nat \<lfloor>virtual_index\<rfloor>;
               next_index = min (previous_index + 1) (n - 1);
               gamma = virtual_index - real previous_index
           in Inr (Fin (lerp (xs ! previous_index) (xs ! next_index) gamma)))"

section \<open>The statistics library\<close>

text \<open>
  \<open>scipy.stats\<close> is outside the notebook. Its numerical cores are parameters of the model:
  \<open>std_norm_ppf\<close> is the quantile function of the standard normal distribution,
  \<open>std_t_ppf df\<close> that of the standard Student-t distribution with \<open>df\<close> degrees of
  freedom, and \<open>t_fit\<close> is \<open>t.fit\<close>, which returns the triple (degrees of freedom,
  location, scale) or raises (\<open>FitError\<close>, for instance on an empty series).

  Around the cores, \<open>ppf(q, loc, scale)\<close> of a SciPy distribution is the same for every
  distribution: the result is \<open>nan\<close> unless the shape parameters are valid, the scale is
  greater than \<open>0\<close> and the location is not \<open>nan\<close>; for \<open>0 < q < 1\<close> it is
  \<open>core(q) * scale + loc\<close>, for \<open>q = 0\<close> and \<open>q = 1\<close> the ends of the support, and
  \<open>nan\<close> for any other \<open>q\<close>.
\<close>

record numerics =
  std_norm_ppf :: "real \<Rightarrow> real"
  t_fit :: "real list \<Rightarrow> error + (fl \<times> fl \<times> fl)"
  std_t_ppf :: "fl \<Rightarrow> real \<Rightarrow> real"

definition rv_ppf :: "(real \<Rightarrow> real) \<Rightarrow> bool \<Rightarrow> real \<Rightarrow> fl \<Rightarrow> fl \<Rightarrow> fl" where
  "rv_ppf core args_ok q loc scale =
     (if args_ok \<and> fl_less (Fin 0) scale \<and> loc \<noteq> NaN then
        (if 0 < q \<and> q < 1 then fl_add (fl_mul (Fin (core q)) scale) loc
         else if q = 0 then fl_add (fl_mul NInf scale) loc
         else if q = 1 then fl_add (fl_mul PInf scale) loc
         else NaN)
      else NaN)"

definition norm_ppf :: "numerics \<Rightarrow> real \<Rightarrow> fl \<Rightarrow> fl \<Rightarrow> fl" where
  "norm_ppf lib q mu sigma = rv_ppf (std_norm_ppf lib) True q mu sigma"

definition t_ppf :: "numerics \<Rightarrow> real \<Rightarrow> fl \<Rightarrow> fl \<Rightarrow> fl \<Rightarrow> fl" where
  "t_ppf lib q df loc scale = rv_ppf (std_t_ppf lib df) (fl_less (Fin 0) df) q loc scale"

section \<open>Value-at-Risk and Conditional Value-at-Risk\<close>

definition calculate_var :: "numerics \<Rightarrow> real list \<Rightarrow> real \<Rightarrow> string \<Rightarrow> error + fl" where
  "calculate_var lib returns confidence_level method =
     (if method = ''historical'' then
        np_percentile returns (100 * (1 - confidence_level))
      else if method = ''normal'' then
        (let mu = np_mean returns;
             sigma = np_std returns
         in Inr (norm_ppf lib (1 - confidence_level) mu sigma))
      else if method = ''t-dist'' then
        (case t_fit lib returns of
           Inl e \<Rightarrow> Inl e
         | Inr (df, loc, scale) \<Rightarrow> Inr (t_ppf lib (1 - confidence_level) df loc scale))
      else Inl InvalidMethod)"

definition calculate_cvar :: "numerics \<Rightarrow> real list \<Rightarrow> real \<Rightarrow> error + fl" where
  "calculate_cvar lib returns confidence_level =
     (case calculate_var lib returns confidence_level ''historical'' of
        Inl e \<Rightarrow> Inl e
      | Inr var \<Rightarrow>
          (let tail_losses = filter (\<lambda>x. fl_le (Fin x) var) returns
           in Inr (np_mean tail_losses)))"





section \<open>Backtesting: Kupiec's proportion-of-failures test\<close>

text \<open>
  The likelihoods are powers of probabilities with exponents as large as the series is
  long, so they leave the range of doubles: a result of magnitude at most \<open>2^-1075\<close> is
  \<open>0.0\<close> and one of magnitude at least \<open>2^1024\<close> is infinite. \<open>dbl\<close> places an exact
  result in that range; the powers and the products of the likelihoods go through it.
\<close>

definition dbl :: "real \<Rightarrow> fl" where
  "dbl x =
     (if \<bar>x\<bar> \<le> 1 / 2 ^ 1075 then Fin 0
      else if 2 ^ 1024 \<le> x then PInf
      else if x \<le> - (2 ^ 1024) then NInf
      else Fin x)"

definition dbl_pow :: "fl \<Rightarrow> nat \<Rightarrow> fl" where
  "dbl_pow x k = (case fl_pow x k of Fin a \<Rightarrow> dbl a | y \<Rightarrow> y)"

definition dbl_mul :: "fl \<Rightarrow> fl \<Rightarrow> fl" where
  "dbl_mul x y = (case fl_mul x y of Fin a \<Rightarrow> dbl a | z \<Rightarrow> z)"

text \<open>
  \<open>failures\<close> is the boolean array \<open>returns < var\<close>; its \<open>sum\<close> counts the exceedances and
  its \<open>mean\<close> is their proportion (\<open>nan\<close> for an empty series). The exponents are
  integers, the bases doubles. No step raises: a logarithm of \<open>0\<close> or of a negative number
  yields \<open>-inf\<close> or \<open>nan\<close>.
\<close>

definition kupiec_lr :: "real list \<Rightarrow> fl \<Rightarrow> real \<Rightarrow> fl" where
  "kupiec_lr returns var confidence_level =
     (let failures = map (\<lambda>x. fl_less (Fin x) var) returns;
          failures_sum = length (filter (\<lambda>b. b) failures);
          p_actual = (if failures = [] then NaN
                      else Fin (real failures_sum / real (length failures)));
          p_expected = Fin (1 - confidence_level);
          others = length returns - failures_sum
      in fl_mul (Fin (- 2))
           (fl_sub
              (np_log (dbl_mul (dbl_pow (fl_sub (Fin 1) p_actual) others)
                               (dbl_pow p_actual failures_sum)))
              (np_log (dbl_mul (dbl_pow (fl_sub (Fin 1) p_expected) others)
                               (dbl_pow p_expected failures_sum)))))"

definition kupiec_test :: "real list \<Rightarrow> fl \<Rightarrow> real \<Rightarrow> bool" where
  "kupiec_test returns var confidence_level =
     fl_less (kupiec_lr returns var confidence_level) (Fin (5024 / 1000))"

section \<open>Monte Carlo Value-at-Risk\<close>

text \<open>
  \<open>np.sort\<close> orders doubles ascending with \<open>nan\<close> last; \<open>prod(axis=0)\<close> multiplies down
  each column, starting from \<open>1\<close>.
\<close>

fun sort_le :: "fl \<Rightarrow> fl \<Rightarrow> bool" where
  "sort_le _ NaN = True"
| "sort_le NaN _ = False"
| "sort_le x y = fl_le x y"

fun np_insort :: "fl \<Rightarrow> fl list \<Rightarrow> fl list" where
  "np_insort x [] = [x]"
| "np_insort x (y # ys) = (if sort_le x y then x # y # ys else y # np_insort x ys)"

definition np_sort :: "fl list \<Rightarrow> fl list" where
  "np_sort xs = foldr np_insort xs []"

definition fl_prod :: "fl list \<Rightarrow> fl" where
  "fl_prod xs = foldl fl_mul (Fin 1) xs"

text \<open>
  The global \<open>portfolio_value\<close> and the random generator are parameters:
  \<open>normal_draw d j\<close> is the standard-normal shock that \<open>np.random.normal\<close> puts at row
  \<open>d\<close> (the day) and column \<open>j\<close> (the path) of the \<open>days\<close>-by-\<open>simulations\<close> matrix.
  Indexing the sorted array outside its bounds raises \<open>IndexError\<close>.
\<close>

definition monte_carlo_var ::
  "real \<Rightarrow> (nat \<Rightarrow> nat \<Rightarrow> real) \<Rightarrow> real list \<Rightarrow> nat \<Rightarrow> nat \<Rightarrow> error + fl" where
  "monte_carlo_var portfolio_value normal_draw returns days simulations =
     (let mu = np_mean returns;
          sigma = np_std returns;
          drift = fl_sub mu (fl_mul (Fin (5 / 10)) (fl_pow sigma 2));
          random_shocks = map (\<lambda>d. map (\<lambda>j. normal_draw d j) [0..<simulations]) [0..<days];
          daily_returns =
            map (map (\<lambda>z. np_exp (fl_add drift (fl_mul sigma (Fin z))))) random_shocks;
          portfolio_path =
            map (\<lambda>j. fl_mul (Fin portfolio_value) (fl_prod (map (\<lambda>row. row ! j) daily_returns)))
              [0..<simulations];
          sorted_returns = np_sort portfolio_path;
          var_index = nat \<lfloor>(5 / 100) * real simulations\<rfloor>
      in if var_index < length sorted_returns
         then Inr (fl_sub (Fin portfolio_value) (sorted_returns ! var_index))
         else Inl IndexOutOfBounds)"

section \<open>The specification's formulas\<close>

text \<open>
  The linear-interpolated empirical percentile, as the specification words it: the order
  statistics are the sorted sample, the rank of percentile \<open>p\<close> is \<open>(n - 1) * p / 100\<close>, and
  the value lies between the order statistics below and above the rank, in proportion to
  the rank's fractional part.
\<close>

definition spec_between_order_statistics :: "real list \<Rightarrow> real \<Rightarrow> real" where
  "spec_between_order_statistics xs h =
     (let lo = xs ! nat \<lfloor>h\<rfloor>;
          hi = xs ! nat \<lceil>h\<rceil>
      in lo + (h - real_of_int \<lfloor>h\<rfloor>) * (hi - lo))"

definition spec_linear_percentile :: "real list \<Rightarrow> real \<Rightarrow> real" where
  "spec_linear_percentile r p =
     spec_between_order_statistics (sort r) ((real (length r) - 1) * p / 100)"

text \<open>
  Kupiec's statistic, as the specification words it: \<open>failures\<close> counts the returns strictly
  below the estimate, \<open>L(p) = (1 - p)^(n - failures) * p^failures\<close>, and
  \<open>LR = -2 * (ln (L p_observed) - ln (L p_expected))\<close>.
\<close>

definition spec_failures :: "real list \<Rightarrow> real \<Rightarrow> nat" where
  "spec_failures returns v = length (filter (\<lambda>r. r < v) returns)"




text \<open>
  The terminal portfolio value of path \<open>j\<close>, as the specification words it: the initial
  value times the exponential of the summed daily log-returns
  \<open>mu - 0.5 * sigma^2 + sigma * shock\<close>.
\<close>

definition spec_terminal_value ::
  "real \<Rightarrow> real \<Rightarrow> real \<Rightarrow> (nat \<Rightarrow> nat \<Rightarrow> real) \<Rightarrow> nat \<Rightarrow> nat \<Rightarrow> real" where
  "spec_terminal_value initial_value mu sigma shock days j =
     initial_value
       * exp (\<Sum>d\<leftarrow>[0..<days]. (mu - (5 / 10) * sigma ^ 2 + sigma * shock d j))"

text \<open>
  A quantile function does not decrease as the probability grows within \<open>(0, 1)\<close>.
\<close>

definition nondecreasing_on_unit :: "(real \<Rightarrow> real) \<Rightarrow> bool" where
  "nondecreasing_on_unit core \<longleftrightarrow>
     (\<forall>p1 p2. 0 < p1 \<and> p1 \<le> p2 \<and> p2 < 1 \<longrightarrow> core p1 \<le> core p2)"

text \<open>
  A concrete library for closed examples: the logistic quantile function \<open>ln (q / (1 - q))\<close>
  in place of both cores, and a fit by mean and standard deviation with three degrees of
  freedom that rejects an empty series.
\<close>

definition linear_numerics :: numerics where
  "linear_numerics =
     \<lparr> std_norm_ppf = (\<lambda>q. ln (q / (1 - q))),
       t_fit = (\<lambda>xs. if xs = [] then Inl FitError else Inr (Fin 3, np_mean xs, np_std xs)),
       std_t_ppf = (\<lambda>df q. ln (q / (1 - q))) \<rparr>"

section \<open>Properties of the model\<close>

subsection \<open>The percentile routine computes the specification's percentile\<close>

lemma lerp_eq: "lerp a b t = a + (b - a) * t"
  by (simp add: lerp_def algebra_simps)

lemma rank_bounds:
  assumes "0 \<le> q" "q \<le> 100" "0 < n"
  shows "0 \<le> (real n - 1) * q / 100" "(real n - 1) * q / 100 \<le> real n - 1"
proof -
  have n1: "0 \<le> real n - 1" using assms by simp
  show "0 \<le> (real n - 1) * q / 100" using n1 assms by simp
  have "(real n - 1) * q \<le> (real n - 1) * 100"
    using n1 assms by (intro mult_left_mono) auto
  then show "(real n - 1) * q / 100 \<le> real n - 1" by simp
qed

lemma np_percentile_interp:
  assumes "0 \<le> h" "h \<le> real n - 1" "0 < n"
  shows "lerp (xs ! nat \<lfloor>h\<rfloor>) (xs ! min (nat \<lfloor>h\<rfloor> + 1) (n - 1)) (h - real (nat \<lfloor>h\<rfloor>))
         = spec_between_order_statistics xs h"
proof (cases "real_of_int \<lfloor>h\<rfloor> = h")
  case True
  then have c: "\<lceil>h\<rceil> = \<lfloor>h\<rfloor>" by (metis ceiling_of_int)
  have "real (nat \<lfloor>h\<rfloor>) = h" using True assms(1) by simp
  then show ?thesis
    by (simp add: lerp_eq spec_between_order_statistics_def c True)
next
  case False
  then have c: "\<lceil>h\<rceil> = \<lfloor>h\<rfloor> + 1" by (simp add: ceiling_altdef)
  have f0: "0 \<le> \<lfloor>h\<rfloor>" using assms(1) by simp
  have "h < real n - 1" using False assms(2)
    by (metis floor_of_nat less_eq_real_def of_int_of_nat_eq of_nat_1 of_nat_diff Suc_leI assms(3) One_nat_def)
  then have "\<lfloor>h\<rfloor> < int n - 1" 
    by (smt (verit) floor_less_iff of_int_1 of_int_diff of_int_of_nat_eq)
  then have m: "min (nat \<lfloor>h\<rfloor> + 1) (n - 1) = nat \<lfloor>h\<rfloor> + 1" using f0 by linarith
  have n: "nat \<lceil>h\<rceil> = nat \<lfloor>h\<rfloor> + 1" using assms(1) by (simp add: c nat_add_distrib)
  have r: "real (nat \<lfloor>h\<rfloor>) = real_of_int \<lfloor>h\<rfloor>" using f0 by simp
  show ?thesis
    by (simp only: lerp_eq spec_between_order_statistics_def Let_def m n r mult.commute)
qed

lemma np_percentile_refines:
  assumes "r \<noteq> []" "0 \<le> q" "q \<le> 100"
  shows "np_percentile r q = Inr (Fin (spec_linear_percentile r q))"
proof -
  have n: "0 < length r" using assms(1) by simp
  note b = rank_bounds[OF assms(2,3) n]
  have "lerp (sort r ! nat \<lfloor>(real (length r) - 1) * q / 100\<rfloor>)
          (sort r ! min (nat \<lfloor>(real (length r) - 1) * q / 100\<rfloor> + 1) (length r - 1))
          ((real (length r) - 1) * q / 100 - real (nat \<lfloor>(real (length r) - 1) * q / 100\<rfloor>))
        = spec_between_order_statistics (sort r) ((real (length r) - 1) * q / 100)"
    by (rule np_percentile_interp[OF b n])
  then show ?thesis
    using assms by (simp add: np_percentile_def spec_linear_percentile_def Let_def)
qed

subsection \<open>Bounds and monotonicity of the interpolated percentile\<close>

lemma ceiling_le_pred: "h \<le> real n - 1 \<Longrightarrow> \<lceil>h\<rceil> \<le> int n - 1"
  by (rule ceiling_le) simp

lemma floor_le_pred: "h \<le> real n - 1 \<Longrightarrow> \<lfloor>h\<rfloor> \<le> int n - 1"
  using ceiling_le_pred[of h n] floor_le_ceiling[of h] by linarith

lemma nth_in_range:
  assumes "i < length (xs::real list)"
  shows "Min (set xs) \<le> xs ! i" "xs ! i \<le> Max (set xs)"
  using assms by (simp_all add: Min_le Max_ge)

lemma between_bounds:
  assumes "sorted xs" "0 \<le> h" "h \<le> real (length xs) - 1"
  shows "xs ! nat \<lfloor>h\<rfloor> \<le> spec_between_order_statistics xs h"
    and "spec_between_order_statistics xs h \<le> xs ! nat \<lceil>h\<rceil>"
proof -
  have c: "nat \<lceil>h\<rceil> < length xs"
  proof -
    have "\<lceil>h\<rceil> \<le> int (length xs) - 1" using assms(3) by (rule ceiling_le_pred)
    moreover have "0 < length xs" using assms(2,3) by (cases xs) auto
    ultimately show ?thesis by linarith
  qed
  have fc: "nat \<lfloor>h\<rfloor> \<le> nat \<lceil>h\<rceil>" by (simp add: floor_le_ceiling nat_mono)
  have le: "xs ! nat \<lfloor>h\<rfloor> \<le> xs ! nat \<lceil>h\<rceil>"
    using assms(1) fc c by (rule sorted_nth_mono)
  have g0: "0 \<le> h - real_of_int \<lfloor>h\<rfloor>" by simp
  have g1: "h - real_of_int \<lfloor>h\<rfloor> \<le> 1" by linarith
  have d: "0 \<le> xs ! nat \<lceil>h\<rceil> - xs ! nat \<lfloor>h\<rfloor>" using le by simp
  have p: "0 \<le> (h - real_of_int \<lfloor>h\<rfloor>) * (xs ! nat \<lceil>h\<rceil> - xs ! nat \<lfloor>h\<rfloor>)"
    using g0 d by (rule mult_nonneg_nonneg)
  show "xs ! nat \<lfloor>h\<rfloor> \<le> spec_between_order_statistics xs h"
    using p by (simp add: spec_between_order_statistics_def Let_def)
  have "(h - real_of_int \<lfloor>h\<rfloor>) * (xs ! nat \<lceil>h\<rceil> - xs ! nat \<lfloor>h\<rfloor>)
          \<le> 1 * (xs ! nat \<lceil>h\<rceil> - xs ! nat \<lfloor>h\<rfloor>)"
    using g1 d by (rule mult_right_mono)
  then show "spec_between_order_statistics xs h \<le> xs ! nat \<lceil>h\<rceil>"
    by (simp add: spec_between_order_statistics_def Let_def)
qed

lemma between_mono:
  assumes s: "sorted xs" and h1: "0 \<le> h1" and le: "h1 \<le> h2" and h2: "h2 \<le> real (length xs) - 1"
  shows "spec_between_order_statistics xs h1 \<le> spec_between_order_statistics xs h2"
proof (cases "\<lceil>h1\<rceil> \<le> \<lfloor>h2\<rfloor>")
  case True
  have c2: "nat \<lfloor>h2\<rfloor> < length xs"
  proof -
    have "\<lfloor>h2\<rfloor> \<le> int (length xs) - 1" using h2 by (rule floor_le_pred)
    moreover have "0 < length xs" using h1 le h2 by (cases xs) auto
    ultimately show ?thesis by linarith
  qed
  have "spec_between_order_statistics xs h1 \<le> xs ! nat \<lceil>h1\<rceil>"
    using s h1 le h2 by (intro between_bounds(2)) auto
  also have "\<dots> \<le> xs ! nat \<lfloor>h2\<rfloor>"
    using s nat_mono[OF True] c2 by (rule sorted_nth_mono)
  also have "\<dots> \<le> spec_between_order_statistics xs h2"
    using s h1 le h2 by (intro between_bounds(1)) auto
  finally show ?thesis .
next
  case False
  then have lt: "\<lfloor>h2\<rfloor> < \<lceil>h1\<rceil>" by simp
  have ff: "\<lfloor>h1\<rfloor> = \<lfloor>h2\<rfloor>"
  proof -
    have "\<lfloor>h1\<rfloor> \<le> \<lfloor>h2\<rfloor>" using le by (rule floor_mono)
    moreover have "\<lceil>h1\<rceil> \<le> \<lfloor>h1\<rfloor> + 1" by linarith
    ultimately show ?thesis using lt by linarith
  qed
  have cc: "\<lceil>h1\<rceil> = \<lceil>h2\<rceil>"
  proof -
    have "\<lceil>h1\<rceil> \<le> \<lceil>h2\<rceil>" using le by (rule ceiling_mono)
    moreover have "\<lceil>h2\<rceil> \<le> \<lfloor>h2\<rfloor> + 1" by linarith
    ultimately show ?thesis using lt by linarith
  qed
  have c: "nat \<lceil>h2\<rceil> < length xs"
  proof -
    have "\<lceil>h2\<rceil> \<le> int (length xs) - 1" using h2 by (rule ceiling_le_pred)
    moreover have "0 < length xs" using h1 le h2 by (cases xs) auto
    ultimately show ?thesis by linarith
  qed
  have "xs ! nat \<lfloor>h2\<rfloor> \<le> xs ! nat \<lceil>h2\<rceil>"
    using s nat_mono[OF floor_le_ceiling] c by (rule sorted_nth_mono)
  then have d: "0 \<le> xs ! nat \<lceil>h2\<rceil> - xs ! nat \<lfloor>h2\<rfloor>" by simp
  have "(h1 - real_of_int \<lfloor>h2\<rfloor>) * (xs ! nat \<lceil>h2\<rceil> - xs ! nat \<lfloor>h2\<rfloor>)
        \<le> (h2 - real_of_int \<lfloor>h2\<rfloor>) * (xs ! nat \<lceil>h2\<rceil> - xs ! nat \<lfloor>h2\<rfloor>)"
    using le d by (intro mult_right_mono) auto
  then show ?thesis
    by (simp add: spec_between_order_statistics_def Let_def ff cc)
qed


lemma historical_var_value:
  assumes "r \<noteq> []" "0 \<le> c" "c \<le> 1"
  shows "calculate_var lib r c ''historical'' = Inr (Fin (spec_linear_percentile r (100 * (1 - c))))"
  using assms by (simp add: calculate_var_def np_percentile_refines)

lemma percentile_in_range:
  assumes "r \<noteq> []" "0 \<le> p" "p \<le> 100"
  shows "Min (set r) \<le> spec_linear_percentile r p"
    and "spec_linear_percentile r p \<le> Max (set r)"
proof -
  let ?xs = "sort r" and ?h = "(real (length r) - 1) * p / 100"
  have n: "0 < length r" using assms(1) by simp
  note b = rank_bounds[OF assms(2,3) n]
  have hb: "?h \<le> real (length ?xs) - 1" using b(2) by simp
  have n': "0 < length ?xs" using n by simp
  have lo: "nat \<lfloor>?h\<rfloor> < length ?xs"
    using floor_le_pred[OF hb] n' by linarith
  have hi: "nat \<lceil>?h\<rceil> < length ?xs"
    using ceiling_le_pred[OF hb] n' by linarith
  have "Min (set r) \<le> ?xs ! nat \<lfloor>?h\<rfloor>"
    using nth_in_range(1)[OF lo] by simp
  also have "\<dots> \<le> spec_between_order_statistics ?xs ?h"
    by (rule between_bounds(1)[OF sorted_sort b(1) hb])
  finally show "Min (set r) \<le> spec_linear_percentile r p"
    by (simp add: spec_linear_percentile_def)
  have "spec_between_order_statistics ?xs ?h \<le> ?xs ! nat \<lceil>?h\<rceil>"
    by (rule between_bounds(2)[OF sorted_sort b(1) hb])
  also have "\<dots> \<le> Max (set r)"
    using nth_in_range(2)[OF hi] by simp
  finally show "spec_linear_percentile r p \<le> Max (set r)"
    by (simp add: spec_linear_percentile_def)
qed

lemma percentile_mono:
  assumes "r \<noteq> []" "0 \<le> p1" "p1 \<le> p2" "p2 \<le> 100"
  shows "spec_linear_percentile r p1 \<le> spec_linear_percentile r p2"
proof -
  have n: "0 < length r" using assms(1) by simp
  have n1: "0 \<le> real (length r) - 1" using n by linarith
  have a: "0 \<le> (real (length r) - 1) * p1 / 100"
    using rank_bounds(1)[OF assms(2) _ n] assms by simp
  have b: "(real (length r) - 1) * p2 / 100 \<le> real (length (sort r)) - 1"
    using rank_bounds(2)[OF _ assms(4) n] assms by simp
  have "(real (length r) - 1) * p1 \<le> (real (length r) - 1) * p2"
    using n1 assms(3) by (rule mult_left_mono[rotated])
  then have c: "(real (length r) - 1) * p1 / 100 \<le> (real (length r) - 1) * p2 / 100"
    by simp
  show ?thesis
    unfolding spec_linear_percentile_def
    by (rule between_mono[OF sorted_sort a c b])
qed

subsection \<open>The tail mean\<close>



lemma tail_nonempty:
  assumes "r \<noteq> []" "Min (set r) \<le> (v::real)"
  shows "filter (\<lambda>x. x \<le> v) r \<noteq> []"
proof -
  have "Min (set r) \<in> set r" using assms(1) by (intro Min_in) auto
  then show ?thesis using assms(2) by (auto simp: filter_empty_conv)
qed

lemma calculate_cvar_value:
  assumes "calculate_var lib r c ''historical'' = Inr (Fin v)" "filter (\<lambda>x. x \<le> v) r \<noteq> []"
  shows "calculate_cvar lib r c
         = Inr (Fin (sum_list (filter (\<lambda>x. x \<le> v) r) / real (length (filter (\<lambda>x. x \<le> v) r))))"
  using assms by (simp add: calculate_cvar_def np_mean_def Let_def)


subsection \<open>Arithmetic on finite values\<close>

lemma fl_pow_Fin: "fl_pow (Fin a) k = Fin (a ^ k)"
  by (simp add: fl_pow_def)

lemma fl_sub_Fin: "fl_sub (Fin a) (Fin b) = Fin (a - b)"
  by (simp add: fl_sub_def)

subsection \<open>Kupiec's statistic inside and below the range of doubles\<close>

lemma dbl_in_range: "1 / 2 ^ 1075 < x \<Longrightarrow> x \<le> 1 \<Longrightarrow> dbl x = Fin x"
proof -
  assume a: "1 / 2 ^ 1075 < x" and b: "x \<le> 1"
  have "(0::real) < 1 / 2 ^ 1075" by simp
  then have "0 < x" using a by linarith
  moreover have "(1::real) < 2 ^ 1024" by simp
  ultimately show ?thesis using a b by (simp add: dbl_def)
qed

lemma dbl_underflow: "0 \<le> x \<Longrightarrow> x \<le> 1 / 2 ^ 1075 \<Longrightarrow> dbl x = Fin 0"
  by (simp add: dbl_def)

lemma dbl_one: "dbl 1 = Fin 1"
  by (rule dbl_in_range) simp_all

lemma dbl_pow_zero: "dbl_pow x 0 = Fin 1"
  by (simp add: dbl_pow_def fl_pow_def dbl_one)

lemma dbl_pow_Fin: "dbl_pow (Fin a) k = dbl (a ^ k)"
  by (simp add: dbl_pow_def fl_pow_def dbl_one)

lemma dbl_mul_Fin: "dbl_mul (Fin a) (Fin b) = dbl (a * b)"
  by (simp add: dbl_mul_def)

lemma failures_sum_eq:
  "length (filter (\<lambda>b. b) (map (\<lambda>x. fl_less (Fin x) (Fin v)) returns)) = spec_failures returns v"
  by (simp add: spec_failures_def filter_map comp_def)


lemma kupiec_lr_unfold:
  assumes "returns \<noteq> []"
  shows "kupiec_lr returns (Fin v) c =
     fl_mul (Fin (- 2))
       (fl_sub
          (np_log (dbl_mul
             (dbl ((1 - real (spec_failures returns v) / real (length returns))
                     ^ (length returns - spec_failures returns v)))
             (dbl ((real (spec_failures returns v) / real (length returns))
                     ^ spec_failures returns v))))
          (np_log (dbl_mul
             (dbl ((1 - (1 - c)) ^ (length returns - spec_failures returns v)))
             (dbl ((1 - c) ^ spec_failures returns v)))))"
  unfolding kupiec_lr_def Let_def failures_sum_eq
  using assms by (simp only: map_is_Nil_conv if_False length_map fl_sub_Fin dbl_pow_Fin)









lemma spec_failures_zero:
  assumes "\<forall>x\<in>set returns. \<not> x < v"
  shows "spec_failures returns v = 0"
  using assms by (simp add: spec_failures_def filter_empty_conv)

lemma kupiec_lr_zero_failures:
  assumes "returns \<noteq> []" and "spec_failures returns v = 0" and "0 < c" and "c < 1"
  shows "kupiec_lr returns (Fin v) c
         = (if c ^ length returns \<le> 1 / 2 ^ 1075 then NInf
            else Fin (2 * real (length returns) * ln c))"
proof -
  let ?n = "length returns"
  have obs: "np_log (dbl_mul (dbl ((1 - real (0::nat) / real ?n) ^ (?n - 0)))
                             (dbl ((real (0::nat) / real ?n) ^ (0::nat)))) = Fin 0"
    by (simp add: dbl_one dbl_mul_Fin)
  have c1: "c ^ ?n \<le> 1" using assms(3,4) by (intro power_le_one) auto
  have c0: "0 < c ^ ?n" using assms(3) by simp
  have exp: "np_log (dbl_mul (dbl ((1 - (1 - c)) ^ (?n - 0))) (dbl ((1 - c) ^ (0::nat))))
             = (if c ^ ?n \<le> 1 / 2 ^ 1075 then NInf else Fin (real ?n * ln c))"
  proof (cases "c ^ ?n \<le> 1 / 2 ^ 1075")
    case True
    have "dbl (c ^ ?n) = Fin 0" using c0 True by (intro dbl_underflow) auto
    then show ?thesis using True by (simp add: dbl_one dbl_mul_Fin dbl_underflow)
  next
    case False
    then have "dbl (c ^ ?n) = Fin (c ^ ?n)" using c1 by (intro dbl_in_range) auto
    then show ?thesis using False c0 assms(3) by (simp add: dbl_one dbl_mul_Fin ln_realpow)
  qed
  show ?thesis
    unfolding kupiec_lr_unfold[OF assms(1)] assms(2) obs exp
    by (simp add: fl_sub_def)
qed

subsection \<open>The simulation on finite values\<close>

lemma np_insort_Fin: "np_insort (Fin x) (map Fin ys) = map Fin (insort x ys)"
  by (induction ys) simp_all

lemma np_sort_Fin: "np_sort (map Fin xs) = map Fin (sort xs)"
  unfolding np_sort_def
  by (induction xs) (simp_all add: np_insort_Fin)

lemma foldl_fl_mul_Fin: "foldl fl_mul (Fin a) (map Fin xs) = Fin (a * prod_list xs)"
  by (induction xs arbitrary: a) (simp_all add: mult.assoc)

lemma fl_prod_Fin: "fl_prod (map Fin xs) = Fin (prod_list xs)"
  by (simp add: fl_prod_def foldl_fl_mul_Fin)

lemma prod_list_exp: "prod_list (map (\<lambda>x. exp (g x)) xs) = exp (\<Sum>x\<leftarrow>xs. (g x :: real))"
  by (induction xs) (simp_all add: exp_add)

lemma column_of_matrix:
  assumes "j < m"
  shows "map (\<lambda>row. row ! j) (map (map f) (map (\<lambda>d. map (\<lambda>j. z d j) [0..<m]) ds))
         = map (\<lambda>d. f (z d j)) ds"
  using assms by (induction ds) simp_all

lemma var_index_less:
  assumes "0 < n"
  shows "nat \<lfloor>(5 / 100) * real n\<rfloor> < n"
proof -
  have "(5 / 100) * real n < real n" using assms by simp
  then have "\<lfloor>(5 / 100) * real n\<rfloor> < int n" by (simp add: floor_less_iff)
  then show ?thesis using assms by linarith
qed

lemma portfolio_path_Fin:
  assumes "j < m"
  shows "fl_mul (Fin pv)
           (fl_prod (map (\<lambda>row. row ! j)
              (map (map (\<lambda>z. np_exp (fl_add (Fin drift) (fl_mul (Fin sigma) (Fin z)))))
                 (map (\<lambda>d. map (\<lambda>j. shock d j) [0..<m]) [0..<days]))))
         = Fin (pv * exp (\<Sum>d\<leftarrow>[0..<days]. (drift + sigma * shock d j)))"
proof -
  have "map (\<lambda>row. row ! j)
          (map (map (\<lambda>z. np_exp (fl_add (Fin drift) (fl_mul (Fin sigma) (Fin z)))))
             (map (\<lambda>d. map (\<lambda>j. shock d j) [0..<m]) [0..<days]))
        = map (\<lambda>d. np_exp (fl_add (Fin drift) (fl_mul (Fin sigma) (Fin (shock d j))))) [0..<days]"
    using assms by (rule column_of_matrix)
  also have "\<dots> = map Fin (map (\<lambda>d. exp (drift + sigma * shock d j)) [0..<days])"
    by simp
  finally show ?thesis
    by (simp only: fl_prod_Fin prod_list_exp fl_mul.simps)
qed

subsection \<open>Mean and standard deviation of a nonempty series\<close>

lemma np_mean_Fin: "xs \<noteq> [] \<Longrightarrow> np_mean xs = Fin (sum_list xs / real (length xs))"
  by (simp add: np_mean_def)

lemma np_std_Fin:
  "xs \<noteq> [] \<Longrightarrow> \<exists>s. np_std xs = Fin s \<and> 0 \<le> s"
  by (auto simp: np_std_def Let_def intro!: divide_nonneg_nonneg sum_list_nonneg)

lemma np_std_example: "np_std [1 / 100, 3 / 100] = Fin (1 / 100)"
proof -
  have "sqrt (1 / 10000) = 1 / 100"
    by (rule real_sqrt_unique) (simp_all add: power2_eq_square)
  then show ?thesis by (simp add: np_std_def power2_eq_square)
qed

subsection \<open>The mean in double precision\<close>












subsection \<open>The parametric methods\<close>

lemma rv_ppf_zero_scale: "rv_ppf core ok q loc (Fin 0) = NaN"
  by (simp add: rv_ppf_def)

lemma rv_ppf_outside: "q < 0 \<or> 1 < q \<Longrightarrow> rv_ppf core ok q loc scale = NaN"
  by (auto simp: rv_ppf_def)

lemma np_std_single: "np_std [x] = Fin 0"
  by (simp add: np_std_def)

lemma logistic_nondecreasing: "nondecreasing_on_unit (\<lambda>q. ln (q / (1 - q)))"
proof -
  have "ln (p1 / (1 - p1)) \<le> ln (p2 / (1 - p2))"
    if "0 < p1" "p1 \<le> p2" "p2 < 1" for p1 p2 :: real
  proof -
    have "p1 * (1 - p2) \<le> p2 * (1 - p1)" using that by (simp add: algebra_simps)
    then have "p1 / (1 - p1) \<le> p2 / (1 - p2)" using that by (simp add: field_simps)
    moreover have "0 < p1 / (1 - p1)" using that by simp
    ultimately show ?thesis by simp
  qed
  then show ?thesis unfolding nondecreasing_on_unit_def by blast
qed


lemma normal_var_value:
  assumes "np_mean r = Fin m" and "np_std r = Fin s" and "0 < s" and "0 < c" and "c < 1"
  shows "calculate_var lib r c ''normal'' = Inr (Fin (std_norm_ppf lib (1 - c) * s + m))"
  using assms by (simp add: calculate_var_def norm_ppf_def rv_ppf_def)

lemma t_dist_var_value:
  assumes "t_fit lib r = Inr (df, Fin loc, Fin scale)" and "fl_less (Fin 0) df"
    and "0 < scale" and "0 < c" and "c < 1"
  shows "calculate_var lib r c ''t-dist'' = Inr (Fin (std_t_ppf lib df (1 - c) * scale + loc))"
  using assms by (simp add: calculate_var_def t_ppf_def rv_ppf_def)

section \<open>The claims\<close>

text \<open>
  Claim C1, as amended. For every nonempty return series \<open>r\<close> and confidence level \<open>c\<close> in
  \<open>(0, 1)\<close>, the historical Value-at-Risk is the linear-interpolated empirical percentile of
  \<open>r\<close> at \<open>100 * (1 - c)\<close>; for the series \<open>[-0.05, -0.02, 0.01, 0.03, 0.04]\<close> and
  \<open>c = 0.8\<close> it is \<open>-0.026\<close> (rank \<open>4 * 0.2 = 0.8\<close>, so \<open>-0.05 + 0.8 * 0.03\<close>).
\<close>

theorem historical_var_is_linear_percentile:
  assumes "r \<noteq> []" and "0 < c" and "c < 1"
  shows "calculate_var lib r c ''historical''
           = Inr (Fin (spec_linear_percentile r (100 * (1 - c))))
         \<and> calculate_var lib [- (5 / 100), - (2 / 100), 1 / 100, 3 / 100, 4 / 100] (8 / 10)
               ''historical''
           = Inr (Fin (- (26 / 1000)))"
proof
  show "calculate_var lib r c ''historical''
          = Inr (Fin (spec_linear_percentile r (100 * (1 - c))))"
    using assms by (intro historical_var_value) auto
  show "calculate_var lib [- (5 / 100), - (2 / 100), 1 / 100, 3 / 100, 4 / 100] (8 / 10)
          ''historical'' = Inr (Fin (- (26 / 1000)))"
    by (simp add: calculate_var_def np_percentile_def lerp_def Let_def)
qed

theorem historical_var_is_linear_percentile_witness:
  "calculate_var linear_numerics [1 / 100, - (3 / 100), 2 / 100] (95 / 100) ''historical''
     = Inr (Fin (spec_linear_percentile [1 / 100, - (3 / 100), 2 / 100] (100 * (1 - 95 / 100))))"
  using historical_var_is_linear_percentile
          [of "[1 / 100, - (3 / 100), 2 / 100]" "95 / 100" linear_numerics]
  by simp

text \<open>
  Claim C1 as stated gives \<open>-0.032\<close> for the example; the code returns \<open>-0.026\<close>.
\<close>

theorem historical_var_example_is_not_0032:
  "calculate_var linear_numerics [- (5 / 100), - (2 / 100), 1 / 100, 3 / 100, 4 / 100] (8 / 10)
     ''historical'' = Inr (Fin (- (26 / 1000)))
   \<and> calculate_var linear_numerics [- (5 / 100), - (2 / 100), 1 / 100, 3 / 100, 4 / 100] (8 / 10)
       ''historical'' \<noteq> Inr (Fin (- (32 / 1000)))"
  by (simp add: calculate_var_def np_percentile_def lerp_def Let_def)





text \<open>
  Claim C3. For a return series with mean \<open>mu\<close> and standard deviation \<open>sigma\<close>, for every
  assignment of the shocks and at least one path, the simulation returns the portfolio
  value minus the entry at index \<open>floor (0.05 * simulations)\<close> of the ascending sort of the
  terminal values \<open>portfolio_value * exp (sum over days of (mu - 0.5 * sigma^2 + sigma * shock))\<close>.
\<close>

theorem monte_carlo_var_formula:
  assumes "np_mean returns = Fin mu" and "np_std returns = Fin sigma" and "0 < simulations"
  shows "monte_carlo_var pv shock returns days simulations
         = Inr (Fin (pv - sort (map (spec_terminal_value pv mu sigma shock days) [0..<simulations])
                           ! nat \<lfloor>(5 / 100) * real simulations\<rfloor>))"
proof -
  let ?drift = "mu - (5 / 10) * sigma ^ 2"
  have drift: "fl_sub (Fin mu) (fl_mul (Fin (5 / 10)) (fl_pow (Fin sigma) 2)) = Fin ?drift"
    by (simp only: fl_pow_Fin fl_mul.simps fl_sub_Fin)
  have cell: "fl_mul (Fin pv)
           (fl_prod (map (\<lambda>row. row ! j)
              (map (map (\<lambda>z. np_exp (fl_add (Fin ?drift) (fl_mul (Fin sigma) (Fin z)))))
                 (map (\<lambda>d. map (\<lambda>j. shock d j) [0..<simulations]) [0..<days]))))
          = Fin (spec_terminal_value pv mu sigma shock days j)"
    if "j \<in> set [0..<simulations]" for j
  proof -
    have "j < simulations" using that by simp
    then show ?thesis
      unfolding spec_terminal_value_def by (rule portfolio_path_Fin)
  qed
  have "map (\<lambda>j. fl_mul (Fin pv)
           (fl_prod (map (\<lambda>row. row ! j)
              (map (map (\<lambda>z. np_exp (fl_add (Fin ?drift) (fl_mul (Fin sigma) (Fin z)))))
                 (map (\<lambda>d. map (\<lambda>j. shock d j) [0..<simulations]) [0..<days])))))
          [0..<simulations]
        = map (\<lambda>j. Fin (spec_terminal_value pv mu sigma shock days j)) [0..<simulations]"
    using cell by (rule map_cong[OF refl])
  also have "\<dots> = map Fin (map (spec_terminal_value pv mu sigma shock days) [0..<simulations])"
    by (simp add: comp_def)
  finally have path: "map (\<lambda>j. fl_mul (Fin pv)
           (fl_prod (map (\<lambda>row. row ! j)
              (map (map (\<lambda>z. np_exp (fl_add (Fin ?drift) (fl_mul (Fin sigma) (Fin z)))))
                 (map (\<lambda>d. map (\<lambda>j. shock d j) [0..<simulations]) [0..<days])))))
          [0..<simulations]
        = map Fin (map (spec_terminal_value pv mu sigma shock days) [0..<simulations])" .
  have idx: "nat \<lfloor>(5 / 100) * real simulations\<rfloor>
             < length (map Fin (sort (map (spec_terminal_value pv mu sigma shock days) [0..<simulations])))"
    using var_index_less[OF assms(3)] by simp
  show ?thesis
    unfolding monte_carlo_var_def Let_def assms(1,2) drift path np_sort_Fin
    using idx by (simp add: fl_sub_Fin)
qed

theorem monte_carlo_var_formula_witness:
  "monte_carlo_var 1000000 (\<lambda>d j. real d - real j) [1 / 100, 3 / 100] 2 40
   = Inr (Fin (1000000
        - sort (map (spec_terminal_value 1000000 (2 / 100) (1 / 100)
                       (\<lambda>d j. real d - real j) 2) [0..<40])
            ! nat \<lfloor>(5 / 100) * real (40::nat)\<rfloor>))"
proof -
  have m: "np_mean [1 / 100, 3 / 100] = Fin (2 / 100)" by (simp add: np_mean_def)
  have s: "np_std [1 / 100, 3 / 100] = Fin (1 / 100)" by (rule np_std_example)
  have n: "0 < (40::nat)" by simp
  show ?thesis by (rule monte_carlo_var_formula[OF m s n])
qed

text \<open>
  Claim C4, as amended. With the historical method \<open>calculate_var\<close> fails, inside the
  percentile routine, when the confidence level lies outside the closed interval
  \<open>[0, 1]\<close> by more than the rounding of \<open>1 - c\<close> (here \<open>2^-50\<close>), and when the series is
  empty and the confidence level is in \<open>[0, 1]\<close>; on a nonempty series every confidence
  level in \<open>[0, 1]\<close>, the ends \<open>0\<close> and \<open>1\<close> included, yields the percentile.
\<close>

theorem calculate_var_failure_cases:
  "(c \<le> - (1 / 2 ^ 50) \<or> 1 + 1 / 2 ^ 50 \<le> c
      \<longrightarrow> calculate_var lib r c ''historical'' = Inl PercentileOutOfRange)
   \<and> (0 \<le> c \<and> c \<le> 1 \<and> r = [] \<longrightarrow> calculate_var lib r c ''historical'' = Inl EmptyInput)
   \<and> (0 \<le> c \<and> c \<le> 1 \<and> r \<noteq> [] \<longrightarrow>
        calculate_var lib r c ''historical''
          = Inr (Fin (spec_linear_percentile r (100 * (1 - c)))))"
proof (intro conjI impI)
  assume a: "c \<le> - (1 / 2 ^ 50) \<or> 1 + 1 / 2 ^ 50 \<le> c"
  have "(0::real) < 1 / 2 ^ 50" by simp
  then have "c < 0 \<or> 1 < c" using a by linarith
  then show "calculate_var lib r c ''historical'' = Inl PercentileOutOfRange"
    by (auto simp: calculate_var_def np_percentile_def)
next
  assume "0 \<le> c \<and> c \<le> 1 \<and> r = []"
  then show "calculate_var lib r c ''historical'' = Inl EmptyInput"
    by (simp add: calculate_var_def np_percentile_def)
next
  assume "0 \<le> c \<and> c \<le> 1 \<and> r \<noteq> []"
  then show "calculate_var lib r c ''historical''
               = Inr (Fin (spec_linear_percentile r (100 * (1 - c))))"
    by (intro historical_var_value) auto
qed

theorem calculate_var_failure_cases_witness:
  "calculate_var linear_numerics [2 / 100, 1 / 100] 2 ''historical'' = Inl PercentileOutOfRange
   \<and> calculate_var linear_numerics [] (95 / 100) ''historical'' = Inl EmptyInput
   \<and> calculate_var linear_numerics [2 / 100, 1 / 100] 0 ''historical''
       = Inr (Fin (spec_linear_percentile [2 / 100, 1 / 100] (100 * (1 - 0))))"
  using calculate_var_failure_cases [of 2 linear_numerics "[2 / 100, 1 / 100]"]
        calculate_var_failure_cases [of "95 / 100" linear_numerics "[]"]
        calculate_var_failure_cases [of 0 linear_numerics "[2 / 100, 1 / 100]"]
  by simp

text \<open>
  Claim C4 as stated fails: the confidence level \<open>1\<close> is outside the open interval
  \<open>(0, 1)\<close>, and the historical method returns the minimum of the series
  (\<open>np.percentile\<close> at \<open>q = 0\<close>) instead of failing; with the normal method the confidence
  level \<open>2\<close> gives \<open>nan\<close> (\<open>norm.ppf\<close> at \<open>-1\<close>), not a failure.
\<close>

theorem calculate_var_accepts_confidence_one:
  "calculate_var linear_numerics [2 / 100, 1 / 100] 1 ''historical'' = Inr (Fin (1 / 100))
   \<and> calculate_var linear_numerics [2 / 100, 1 / 100] 2 ''normal'' = Inr NaN"
  by (simp add: calculate_var_def np_percentile_def lerp_def Let_def norm_ppf_def
      rv_ppf_outside)

text \<open>
  Claim C6, as amended. For a nonempty return series with no return strictly below the
  finite estimate and a confidence level \<open>c\<close> in \<open>(0, 1)\<close>, the test passes. The observed
  likelihood is \<open>1\<close> (\<open>0 ** 0\<close> is \<open>1\<close>), so its logarithm is \<open>0\<close>; the statistic is
  \<open>2 * n * ln c\<close> as long as \<open>c^n\<close> is above the smallest double, and \<open>-inf\<close> once
  \<open>c^n\<close> is \<open>0.0\<close>: then \<open>np.log(0.0)\<close> is evaluated.
\<close>

theorem kupiec_zero_exceedances_pass:
  assumes "returns \<noteq> []" and "\<forall>x\<in>set returns. \<not> x < v" and "0 < c" and "c < 1"
  shows "kupiec_test returns (Fin v) c
         \<and> kupiec_lr returns (Fin v) c
             = (if c ^ length returns \<le> 1 / 2 ^ 1075 then NInf
                else Fin (2 * real (length returns) * ln c))"
proof -
  have z: "spec_failures returns v = 0" using assms(2) by (rule spec_failures_zero)
  have lr: "kupiec_lr returns (Fin v) c
              = (if c ^ length returns \<le> 1 / 2 ^ 1075 then NInf
                 else Fin (2 * real (length returns) * ln c))"
    using assms(1) z assms(3,4) by (rule kupiec_lr_zero_failures)
  have "ln c < 0" using assms(3,4) by simp
  then have "real (length returns) * ln c \<le> 0"
    by (simp add: mult_nonneg_nonpos)
  moreover have "2 * real (length returns) * ln c = 2 * (real (length returns) * ln c)"
    by simp
  ultimately have "2 * real (length returns) * ln c < 5024 / 1000" by linarith
  then have "kupiec_test returns (Fin v) c" by (simp add: kupiec_test_def lr)
  then show ?thesis using lr by simp
qed

theorem kupiec_zero_exceedances_pass_witness:
  "kupiec_test [1 / 100, - (3 / 100), 2 / 100] (Fin (- (5 / 100))) (99 / 100)
   \<and> kupiec_lr [1 / 100, - (3 / 100), 2 / 100] (Fin (- (5 / 100))) (99 / 100)
       = Fin (2 * real (length [1 / 100, - (3 / 100), 2 / 100 :: real]) * ln (99 / 100))"
proof -
  have "\<not> (99 / 100 :: real) ^ length [1 / 100, - (3 / 100), 2 / 100 :: real] \<le> 1 / 2 ^ 1075"
    by simp
  then show ?thesis
    using kupiec_zero_exceedances_pass
            [of "[1 / 100, - (3 / 100), 2 / 100]" "- (5 / 100)" "99 / 100"]
    by simp
qed

text \<open>
  Claim C6 as stated fails on a long series: for 1100 returns, none below the estimate,
  and \<open>c = 0.5\<close> the expected likelihood \<open>0.5^1100\<close> is \<open>0.0\<close> in doubles, its
  logarithm is taken, and the statistic is \<open>-inf\<close>.
\<close>

theorem kupiec_zero_exceedances_log_of_zero:
  "kupiec_lr (replicate 1100 0) (Fin (- 1)) (1 / 2) = NInf"
proof -
  have ne: "replicate 1100 (0::real) \<noteq> []" by simp
  have z: "spec_failures (replicate 1100 0) (- 1) = 0" by (simp add: spec_failures_def)
  have u: "(1 / 2 :: real) ^ length (replicate 1100 (0::real)) \<le> 1 / 2 ^ 1075"
    by (simp add: power_one_over)
  show ?thesis
    using kupiec_lr_zero_failures[OF ne z, of "1 / 2"] u by simp
qed





text \<open>
  Claim C8, as amended. For a fixed nonempty return series the Value-at-Risk does not
  increase as the confidence level grows within \<open>(0, 1)\<close>: with the historical method for
  every such series; with the normal method when the standard deviation of the series is
  not zero; with the t-dist method when the fit returns a finite location, a finite
  positive scale and positive degrees of freedom. For the two parametric methods the
  result is location plus scale times the standard quantile, and the standard quantile
  function is taken to be nondecreasing.
\<close>

theorem var_monotone_in_confidence:
  assumes "r \<noteq> []" and "0 < c1" and "c1 \<le> c2" and "c2 < 1"
    and "method = ''historical''
         \<or> method = ''normal'' \<and> np_std r \<noteq> Fin 0
             \<and> nondecreasing_on_unit (std_norm_ppf lib)
         \<or> method = ''t-dist''
             \<and> (\<exists>df loc scale. t_fit lib r = Inr (df, Fin loc, Fin scale)
                   \<and> fl_less (Fin 0) df \<and> 0 < scale
                   \<and> nondecreasing_on_unit (std_t_ppf lib df))"
  shows "\<exists>v1 v2. calculate_var lib r c1 method = Inr v1
                \<and> calculate_var lib r c2 method = Inr v2 \<and> fl_le v2 v1"
proof -
  have p: "0 < 1 - c2 \<and> 1 - c2 \<le> 1 - c1 \<and> 1 - c1 < 1" using assms(2-4) by simp
  have c: "0 < c1" "c1 < 1" "0 < c2" "c2 < 1" using assms(2-4) by simp_all
  consider (historical) "method = ''historical''"
    | (normal) "method = ''normal''" "np_std r \<noteq> Fin 0"
        "nondecreasing_on_unit (std_norm_ppf lib)"
    | (t_dist) df loc scale where "method = ''t-dist''"
        "t_fit lib r = Inr (df, Fin loc, Fin scale)" "fl_less (Fin 0) df" "0 < scale"
        "nondecreasing_on_unit (std_t_ppf lib df)"
    using assms(5) by blast
  then show ?thesis
  proof cases
    case historical
    have "spec_linear_percentile r (100 * (1 - c2)) \<le> spec_linear_percentile r (100 * (1 - c1))"
      using assms(1-4) by (intro percentile_mono) auto
    moreover have "calculate_var lib r c1 ''historical''
                   = Inr (Fin (spec_linear_percentile r (100 * (1 - c1))))"
      using assms(1-4) by (intro historical_var_value) auto
    moreover have "calculate_var lib r c2 ''historical''
                   = Inr (Fin (spec_linear_percentile r (100 * (1 - c2))))"
      using assms(1-4) by (intro historical_var_value) auto
    ultimately show ?thesis using historical by simp
  next
    case normal
    obtain s where s: "np_std r = Fin s" "0 \<le> s" using np_std_Fin[OF assms(1)] by blast
    then have s0: "0 < s" using normal(2) by (cases "s = 0") auto
    note m = np_mean_Fin[OF assms(1)]
    have "std_norm_ppf lib (1 - c2) \<le> std_norm_ppf lib (1 - c1)"
      using normal(3) p unfolding nondecreasing_on_unit_def by blast
    then have "std_norm_ppf lib (1 - c2) * s \<le> std_norm_ppf lib (1 - c1) * s"
      using s0 by (intro mult_right_mono) auto
    then show ?thesis
      unfolding normal(1) normal_var_value[OF m s(1) s0 c(1,2)]
        normal_var_value[OF m s(1) s0 c(3,4)]
      by simp
  next
    case t_dist
    have "std_t_ppf lib df (1 - c2) \<le> std_t_ppf lib df (1 - c1)"
      using t_dist(5) p unfolding nondecreasing_on_unit_def by blast
    then have "std_t_ppf lib df (1 - c2) * scale \<le> std_t_ppf lib df (1 - c1) * scale"
      using t_dist(4) by (intro mult_right_mono) auto
    then show ?thesis
      unfolding t_dist(1) t_dist_var_value[OF t_dist(2,3,4) c(1,2)]
        t_dist_var_value[OF t_dist(2,3,4) c(3,4)]
      by simp
  qed
qed


theorem var_monotone_in_confidence_witness:
  "(\<exists>v1 v2. calculate_var linear_numerics [1 / 100, 3 / 100] (90 / 100) ''historical'' = Inr v1
         \<and> calculate_var linear_numerics [1 / 100, 3 / 100] (95 / 100) ''historical'' = Inr v2
         \<and> fl_le v2 v1)
   \<and> (\<exists>v1 v2. calculate_var linear_numerics [1 / 100, 3 / 100] (90 / 100) ''normal'' = Inr v1
         \<and> calculate_var linear_numerics [1 / 100, 3 / 100] (95 / 100) ''normal'' = Inr v2
         \<and> fl_le v2 v1)
   \<and> (\<exists>v1 v2. calculate_var linear_numerics [1 / 100, 3 / 100] (90 / 100) ''t-dist'' = Inr v1
         \<and> calculate_var linear_numerics [1 / 100, 3 / 100] (95 / 100) ''t-dist'' = Inr v2
         \<and> fl_le v2 v1)"
proof -
  have ne: "[1 / 100, 3 / 100] \<noteq> ([] :: real list)" by simp
  have c: "(0::real) < 90 / 100" "(90 / 100 :: real) \<le> 95 / 100" "(95 / 100 :: real) < 1"
    by simp_all
  note mono = var_monotone_in_confidence[OF ne c]
  have n: "np_std [1 / 100, 3 / 100] \<noteq> Fin 0" by (simp add: np_std_example)
  have qn: "nondecreasing_on_unit (std_norm_ppf linear_numerics)"
    using logistic_nondecreasing by (simp add: linear_numerics_def)
  have fit: "t_fit linear_numerics [1 / 100, 3 / 100] = Inr (Fin 3, Fin (2 / 100), Fin (1 / 100))"
    by (simp add: linear_numerics_def np_mean_def np_std_example)
  have qt: "nondecreasing_on_unit (std_t_ppf linear_numerics (Fin 3))"
    using logistic_nondecreasing by (simp add: linear_numerics_def)
  have t: "\<exists>df loc scale. t_fit linear_numerics [1 / 100, 3 / 100] = Inr (df, Fin loc, Fin scale)
             \<and> fl_less (Fin 0) df \<and> 0 < scale
             \<and> nondecreasing_on_unit (std_t_ppf linear_numerics df)"
    using fit qt by (intro exI[of _ "Fin 3"] exI[of _ "2 / 100"] exI[of _ "1 / 100"]) simp
  show ?thesis
  proof (intro conjI)
    show "\<exists>v1 v2. calculate_var linear_numerics [1 / 100, 3 / 100] (90 / 100) ''historical''
                     = Inr v1
        \<and> calculate_var linear_numerics [1 / 100, 3 / 100] (95 / 100) ''historical'' = Inr v2
        \<and> fl_le v2 v1"
      by (rule mono) simp
    show "\<exists>v1 v2. calculate_var linear_numerics [1 / 100, 3 / 100] (90 / 100) ''normal''
                     = Inr v1
        \<and> calculate_var linear_numerics [1 / 100, 3 / 100] (95 / 100) ''normal'' = Inr v2
        \<and> fl_le v2 v1"
      using n qn by (intro mono) simp
    show "\<exists>v1 v2. calculate_var linear_numerics [1 / 100, 3 / 100] (90 / 100) ''t-dist''
                     = Inr v1
        \<and> calculate_var linear_numerics [1 / 100, 3 / 100] (95 / 100) ''t-dist'' = Inr v2
        \<and> fl_le v2 v1"
      using t by (intro mono) simp
  qed
qed

text \<open>
  Claim C8 as stated fails for the normal method on a series of one return: its standard
  deviation is \<open>0\<close>, \<open>norm.ppf\<close> with scale \<open>0\<close> is \<open>nan\<close> at every confidence level, and
  \<open>nan <= nan\<close> is false.
\<close>

theorem normal_var_of_single_return_is_nan:
  "calculate_var linear_numerics [1 / 100] (90 / 100) ''normal'' = Inr NaN
   \<and> calculate_var linear_numerics [1 / 100] (95 / 100) ''normal'' = Inr NaN
   \<and> \<not> fl_le NaN NaN"
  by (simp add: calculate_var_def norm_ppf_def np_std_single rv_ppf_zero_scale)


text \<open>
  Claim C9. A method string other than \<open>historical\<close>, \<open>normal\<close> and \<open>t-dist\<close> fails with
  the invalid-method error whatever the series, the confidence level and the library are,
  also where the percentile routine would have failed: nothing is computed first.
\<close>

theorem unknown_method_fails:
  assumes "method \<notin> {''historical'', ''normal'', ''t-dist''}"
  shows "calculate_var lib r c method = Inl InvalidMethod"
  using assms by (simp add: calculate_var_def)

theorem unknown_method_fails_witness:
  "calculate_var linear_numerics [] 2 ''garch'' = Inl InvalidMethod"
  using unknown_method_fails [of "''garch''" linear_numerics "[]" 2]
  by simp

text \<open>
  Claim C10. For every nonempty return series and confidence level in \<open>(0, 1)\<close>, the
  historical Value-at-Risk lies between the smallest and the largest return, so the tail
  of returns at or below it is not empty and the conditional Value-at-Risk is the mean
  of that tail, a finite number.
\<close>

theorem historical_var_within_sample_range:
  assumes "r \<noteq> []" and "0 < c" and "c < 1"
  shows "\<exists>v. calculate_var lib r c ''historical'' = Inr (Fin v)
            \<and> Min (set r) \<le> v \<and> v \<le> Max (set r)
            \<and> filter (\<lambda>x. x \<le> v) r \<noteq> []
            \<and> calculate_cvar lib r c
                = Inr (Fin (sum_list (filter (\<lambda>x. x \<le> v) r)
                            / real (length (filter (\<lambda>x. x \<le> v) r))))"
proof -
  let ?v = "spec_linear_percentile r (100 * (1 - c))"
  have v: "calculate_var lib r c ''historical'' = Inr (Fin ?v)"
    using assms by (intro historical_var_value) auto
  have lo: "Min (set r) \<le> ?v" using assms by (intro percentile_in_range(1)) auto
  have hi: "?v \<le> Max (set r)" using assms by (intro percentile_in_range(2)) auto
  have t: "filter (\<lambda>x. x \<le> ?v) r \<noteq> []" using assms(1) lo by (rule tail_nonempty)
  have w: "calculate_cvar lib r c
             = Inr (Fin (sum_list (filter (\<lambda>x. x \<le> ?v) r)
                         / real (length (filter (\<lambda>x. x \<le> ?v) r))))"
    using v t by (rule calculate_cvar_value)
  show ?thesis using v lo hi t w by blast
qed

theorem historical_var_within_sample_range_witness:
  "\<exists>v. calculate_var linear_numerics [1 / 100, - (3 / 100), 2 / 100] (95 / 100) ''historical''
          = Inr (Fin v)
      \<and> Min (set [1 / 100, - (3 / 100), 2 / 100]) \<le> v
      \<and> v \<le> Max (set [1 / 100, - (3 / 100), 2 / 100])
      \<and> filter (\<lambda>x. x \<le> v) [1 / 100, - (3 / 100), 2 / 100] \<noteq> []
      \<and> calculate_cvar linear_numerics [1 / 100, - (3 / 100), 2 / 100] (95 / 100)
          = Inr (Fin (sum_list (filter (\<lambda>x. x \<le> v) [1 / 100, - (3 / 100), 2 / 100])
                      / real (length (filter (\<lambda>x. x \<le> v) [1 / 100, - (3 / 100), 2 / 100]))))"
  by (rule historical_var_within_sample_range) simp_all

end
